theory Spec2Isabelle
  imports Complex_Main "HOL-Library.Word" "HOL-Library.Multiset"
begin

section \<open>Python values used by the preprocessing code\<close>

text \<open>
  The development embeds \<^verbatim>\<open>src/preprocessing/dicom_loader.py\<close>,
  \<^verbatim>\<open>src/preprocessing/resampling.py\<close>, \<^verbatim>\<open>src/preprocessing/normalization.py\<close>
  and \<^verbatim>\<open>src/preprocessing/pipeline.py\<close>.

  Conventions of the embedding:
  \<^item> a Python \<^verbatim>\<open>float\<close> is a \<open>real\<close>: ordering, division and rounding are the
    mathematical ones, so NaN, infinities and the precision of a cast to single precision
    are outside the model;
  \<^item> an exception is a value of \<open>py_error\<close>; a function that may raise returns
    \<open>py_error + 'a\<close> with \<open>Inl\<close> for the exception. The string carried by an error is
    a fixed prefix of the Python message, so that the raise sites stay apart;
  \<^item> a numpy array is its shape together with its elements in row-major order.
\<close>

datatype py_error =
    FileNotFoundError string
  | NotADirectoryError
  | IsADirectoryError
  | InvalidDicomError
  | ValueError string
  | ZeroDivisionError string
  | KeyError string
  | TypeError
  | IndexError

definition and_then :: "py_error + 'a \<Rightarrow> ('a \<Rightarrow> py_error + 'b) \<Rightarrow> py_error + 'b" where
  "and_then r f = (case r of Inl e \<Rightarrow> Inl e | Inr x \<Rightarrow> f x)"

record 'a ndarray =
  shape :: "nat list"
  data :: "'a list"

definition ndim :: "'a ndarray \<Rightarrow> nat" where
  "ndim a = length (shape a)"

definition astype :: "('a \<Rightarrow> 'b) \<Rightarrow> 'a ndarray \<Rightarrow> 'b ndarray" where
  "astype cast a = \<lparr>shape = shape a, data = map cast (data a)\<rparr>"

type_synonym int16 = "16 word"

text \<open>\<^verbatim>\<open>arr.astype(np.int16)\<close> on integer pixel data keeps the low 16 bits, read as
  two's complement.\<close>

definition cast_int16 :: "int \<Rightarrow> int16" where
  "cast_int16 p = word_of_int p"

definition astype_int16 :: "int ndarray \<Rightarrow> int16 ndarray" where
  "astype_int16 a = astype cast_int16 a"

text \<open>\<^verbatim>\<open>arr.astype(np.float32)\<close>: the elements are reals here, the array is unchanged.\<close>

definition astype_float32 :: "real ndarray \<Rightarrow> real ndarray" where
  "astype_float32 a = a"

text \<open>\<^verbatim>\<open>np.stack(arrays, axis=0)\<close>: numpy raises on an empty list and when the shapes
  differ; otherwise the arrays are laid out one after the other along a new first axis.\<close>

definition np_stack :: "'a ndarray list \<Rightarrow> py_error + 'a ndarray" where
  "np_stack arrays =
     (case arrays of
        [] \<Rightarrow> Inl (ValueError ''need at least one array to stack'')
      | a # rest \<Rightarrow>
          if \<exists>b \<in> set rest. shape b \<noteq> shape a
          then Inl (ValueError ''all input arrays must have the same shape'')
          else Inr \<lparr>shape = length arrays # shape a, data = concat (map data arrays)\<rparr>)"

subsection \<open>Strings and paths\<close>

text \<open>\<^verbatim>\<open>str.lower\<close>, \<^verbatim>\<open>str.upper\<close> and the white space of \<^verbatim>\<open>str.strip\<close>, on ASCII.\<close>

definition char_lower :: "char \<Rightarrow> char" where
  "char_lower c =
     (case map_of (zip ''ABCDEFGHIJKLMNOPQRSTUVWXYZ'' ''abcdefghijklmnopqrstuvwxyz'') c of
        None \<Rightarrow> c
      | Some l \<Rightarrow> l)"

definition char_upper :: "char \<Rightarrow> char" where
  "char_upper c =
     (case map_of (zip ''abcdefghijklmnopqrstuvwxyz'' ''ABCDEFGHIJKLMNOPQRSTUVWXYZ'') c of
        None \<Rightarrow> c
      | Some u \<Rightarrow> u)"

definition lower :: "string \<Rightarrow> string" where
  "lower s = map char_lower s"

definition upper :: "string \<Rightarrow> string" where
  "upper s = map char_upper s"

definition is_space :: "char \<Rightarrow> bool" where
  "is_space c = (c \<in> set [CHR '' '', CHR 0x09, CHR 0x0A, CHR 0x0B, CHR 0x0C, CHR 0x0D])"

definition strip :: "string \<Rightarrow> string" where
  "strip s = rev (dropWhile is_space (rev (dropWhile is_space s)))"

definition endswith :: "string \<Rightarrow> string \<Rightarrow> bool" where
  "endswith s suffix =
     (length suffix \<le> length s \<and> drop (length s - length suffix) s = suffix)"

text \<open>\<^verbatim>\<open>s.rstrip("/")\<close>, \<^verbatim>\<open>os.path.basename\<close> and \<^verbatim>\<open>os.path.join\<close> of two
  components (POSIX).\<close>

definition rstrip_slash :: "string \<Rightarrow> string" where
  "rstrip_slash s = rev (dropWhile (\<lambda>c. c = CHR ''/'') (rev s))"

definition basename :: "string \<Rightarrow> string" where
  "basename p = rev (takeWhile (\<lambda>c. c \<noteq> CHR ''/'') (rev p))"

definition path_join :: "string \<Rightarrow> string \<Rightarrow> string" where
  "path_join a b =
     (if b \<noteq> [] \<and> hd b = CHR ''/'' then b
      else if a = [] \<or> last a = CHR ''/'' then a @ b
      else a @ ''/'' @ b)"

section \<open>The series assembler: \<^verbatim>\<open>load_dicom_series\<close>\<close>

text \<open>
  A decoded DICOM file, with the header fields the loader reads. A field that
  \<^verbatim>\<open>hasattr\<close>/\<^verbatim>\<open>getattr\<close> may find missing is an \<open>option\<close>. The pixel data and the
  SOP instance identifier are mandatory (DICOM type 1) and are always present in a decoded
  slice; \<open>ImagePositionPatient\<close> has exactly three components.
\<close>

record dataset =
  ImagePositionPatient :: "(real \<times> real \<times> real) option"
  SliceLocation :: "real option"
  InstanceNumber :: "int option"
  pixel_array :: "int ndarray"
  SOPInstanceUID :: string
  PixelSpacing :: "(real \<times> real) option"
  SliceThickness :: "real option"
  SpacingBetweenSlices :: "real option"
  Modality :: "string option"
  SeriesInstanceUID :: "string option"
  PatientID :: "string option"

text \<open>
  The file system: a directory is the list \<^verbatim>\<open>os.listdir\<close> returns, each name with what
  \<^verbatim>\<open>pydicom.dcmread\<close> yields for that file (\<open>None\<close> when the file cannot be decoded);
  \<^verbatim>\<open>.npy\<close> files are kept by path. A path is looked up as the string it is.
\<close>

type_synonym dicom_file = "string \<times> dataset option"

record filesystem =
  dirs :: "string \<rightharpoonup> dicom_file list"
  npys :: "string \<rightharpoonup> real ndarray"

definition os_path_exists :: "filesystem \<Rightarrow> string \<Rightarrow> bool" where
  "os_path_exists fs p = (dirs fs p \<noteq> None \<or> npys fs p \<noteq> None)"

definition os_listdir :: "filesystem \<Rightarrow> string \<Rightarrow> py_error + dicom_file list" where
  "os_listdir fs p =
     (case dirs fs p of
        Some listing \<Rightarrow> Inr listing
      | None \<Rightarrow> if npys fs p \<noteq> None then Inl NotADirectoryError
                else Inl (FileNotFoundError ''No such file or directory''))"

record slice_instance =
  dataset :: dataset
  z :: real
  path :: string

text \<open>The \<^verbatim>\<open>if hasattr ... elif ... else\<close> chain that computes \<^verbatim>\<open>z\<close> for one slice.\<close>

definition position_key :: "dataset \<Rightarrow> real" where
  "position_key ds =
     (case ImagePositionPatient ds of
        Some (px, py, pz) \<Rightarrow> pz
      | None \<Rightarrow>
          (case SliceLocation ds of
             Some loc \<Rightarrow> loc
           | None \<Rightarrow>
               (case InstanceNumber ds of
                  Some n \<Rightarrow> real_of_int n
                | None \<Rightarrow> 0)))"

text \<open>Step 1: the paths of the entries whose lower-cased name ends with \<^verbatim>\<open>.dcm\<close>.\<close>

definition dicom_files_of :: "string \<Rightarrow> dicom_file list \<Rightarrow> dicom_file list" where
  "dicom_files_of series_dir listing =
     map (\<lambda>(f, c). (path_join series_dir f, c))
       (filter (\<lambda>(f, c). endswith (lower f) ''.dcm'') listing)"

text \<open>Step 2: the loop reading every header, in encounter order; \<^verbatim>\<open>dcmread\<close> raises
  on the first file that cannot be decoded.\<close>

fun read_headers :: "dicom_file list \<Rightarrow> py_error + slice_instance list" where
  "read_headers [] = Inr []"
| "read_headers ((fp, None) # rest) = Inl InvalidDicomError"
| "read_headers ((fp, Some ds) # rest) =
     and_then (read_headers rest)
       (\<lambda>instances. Inr (\<lparr>dataset = ds, z = position_key ds, path = fp\<rparr> # instances))"

datatype meta_value =
    MNone
  | MStr string
  | MFloat real
  | MFloatPair real real
  | MFloatList "real list"
  | MStrList "string list"

type_synonym metadata = "string \<rightharpoonup> meta_value"

definition opt_str :: "string option \<Rightarrow> meta_value" where
  "opt_str v = (case v of None \<Rightarrow> MNone | Some s \<Rightarrow> MStr s)"

text \<open>Steps 3 to 5: the stable sort by \<^verbatim>\<open>z\<close> (Python's \<^verbatim>\<open>sorted\<close>), the stacking of
  the slices cast to int16, and the spacing and metadata read from the first instance.\<close>

definition load_dicom_series ::
  "filesystem \<Rightarrow> string \<Rightarrow> py_error + (int16 ndarray \<times> metadata)" where
  "load_dicom_series fs series_dir =
     and_then (os_listdir fs series_dir) (\<lambda>listing.
     let dicom_files = dicom_files_of series_dir listing in
     if length dicom_files = 0 then Inl (FileNotFoundError ''No DICOM files found in'')
     else
     and_then (read_headers dicom_files) (\<lambda>instances.
     let instances = sort_key z instances;
         slices = map (\<lambda>inst. astype_int16 (pixel_array (dataset inst))) instances;
         sop_uids = map (\<lambda>inst. SOPInstanceUID (dataset inst)) instances
     in
     and_then (np_stack slices) (\<lambda>volume.
     (case instances of
        [] \<Rightarrow> Inl IndexError
      | inst0 # _ \<Rightarrow>
          let ds0 = dataset inst0;
              pixel_spacing = (case PixelSpacing ds0 of None \<Rightarrow> (1, 1) | Some ps \<Rightarrow> ps);
              slice_thickness = SliceThickness ds0;
              spacing_between_slices = SpacingBetweenSlices ds0;
              z_spacing =
                (case slice_thickness of
                   Some t \<Rightarrow> t
                 | None \<Rightarrow>
                     (case spacing_between_slices of
                        Some s \<Rightarrow> s
                      | None \<Rightarrow> 1))
          in Inr (volume,
               map_of
                 [(''PixelSpacing'', MFloatPair (fst pixel_spacing) (snd pixel_spacing)),
                  (''SliceSpacing'', MFloat z_spacing),
                  (''SliceLocations'', MFloatList (map z instances)),
                  (''SOPInstanceUIDs'', MStrList sop_uids),
                  (''Modality'', MStr (case Modality ds0 of None \<Rightarrow> ''UNKNOWN'' | Some m \<Rightarrow> m)),
                  (''SeriesInstanceUID'', opt_str (SeriesInstanceUID ds0)),
                  (''PatientID'', opt_str (PatientID ds0))])))))"

section \<open>Intensity normalisation: \<^verbatim>\<open>normalize_volume\<close>\<close>

text \<open>The int16 volume enters floating-point arithmetic through numpy's promotion.\<close>

definition to_float :: "int16 ndarray \<Rightarrow> real ndarray" where
  "to_float a = astype (\<lambda>w. real_of_int (sint w)) a"

definition array_min :: "real list \<Rightarrow> real" where
  "array_min xs = fold min (tl xs) (hd xs)"

definition array_max :: "real list \<Rightarrow> real" where
  "array_max xs = fold max (tl xs) (hd xs)"

definition array_mean :: "real list \<Rightarrow> real" where
  "array_mean xs = sum_list xs / real (length xs)"

definition array_std :: "real list \<Rightarrow> real" where
  "array_std xs = sqrt (array_mean (map (\<lambda>x. (x - array_mean xs)\<^sup>2) xs))"

text \<open>The square root has no code equations; \<open>array_std\<close> is kept out of the generated
  code, so that everything that does not reach it can still be evaluated.\<close>

declare array_std_def [code del]

definition window_intensity :: "real ndarray \<Rightarrow> real \<Rightarrow> real \<Rightarrow> real ndarray" where
  "window_intensity a window_center window_width =
     (let lower = window_center - (window_width / 2);
          upper = window_center + (window_width / 2)
      in astype (\<lambda>x. min (max x lower) upper) a)"

text \<open>\<^verbatim>\<open>.min()\<close> of an array without elements raises; this is the only failure of the
  two normalisers.\<close>

definition min_max_scale :: "real ndarray \<Rightarrow> py_error + real ndarray" where
  "min_max_scale a =
     (if data a = []
      then Inl (ValueError ''zero-size array to reduction operation minimum which has no identity'')
      else Inr (astype (\<lambda>x. (x - array_min (data a)) /
                             (array_max (data a) - array_min (data a) + 1 / 10 ^ 8)) a))"

definition normalize_cta :: "int16 ndarray \<Rightarrow> py_error + real ndarray" where
  "normalize_cta a =
     (let windowed = window_intensity (to_float a) 40 80
      in and_then (min_max_scale windowed) (\<lambda>normed. Inr (astype_float32 normed)))"

definition normalize_mri :: "int16 ndarray \<Rightarrow> py_error + real ndarray" where
  "normalize_mri a =
     (let mean = array_mean (data (to_float a));
          std = array_std (data (to_float a)) + 1 / 10 ^ 8;
          normed = astype (\<lambda>x. (x - mean) / std) (to_float a)
      in and_then (min_max_scale normed) (\<lambda>normed. Inr (astype_float32 normed)))"

definition normalize_volume :: "int16 ndarray \<Rightarrow> string \<Rightarrow> py_error + real ndarray" where
  "normalize_volume a modality =
     (let modality = strip (upper modality)
      in if modality \<in> set [''CT'', ''CTA''] then normalize_cta a
         else if modality \<in> set [''MR'', ''MRI'', ''MRA'', ''T1'', ''T2''] then normalize_mri a
         else normalize_mri a)"

section \<open>The isotropic resampler: \<^verbatim>\<open>resample_isotropic\<close>\<close>

text \<open>
  \<^verbatim>\<open>scipy.ndimage.zoom\<close> is a library function; the resampler is embedded over an
  arbitrary interpolation \<open>zoom\<close> that receives the array, the zoom factors and the order
  and either raises or returns the resampled array.
\<close>

type_synonym zoom_fn = "real ndarray \<Rightarrow> real list \<Rightarrow> int \<Rightarrow> py_error + real ndarray"

text \<open>The dimensionality normalisation at the head of the function.\<close>

definition normalize_dims :: "'a ndarray \<Rightarrow> py_error + 'a ndarray" where
  "normalize_dims a =
     (if ndim a = 2 then Inr (a\<lparr>shape := 1 # shape a\<rparr>)
      else if ndim a = 4 \<and> hd (shape a) = 1 then Inr (a\<lparr>shape := tl (shape a)\<rparr>)
      else if ndim a \<noteq> 3 then Inl (ValueError ''Unexpected volume shape'')
      else Inr a)"

text \<open>\<^verbatim>\<open>a, b, c = t\<close>: tuple unpacking raises unless \<open>t\<close> has three components.\<close>

definition unpack3 :: "'a list \<Rightarrow> py_error + ('a \<times> 'a \<times> 'a)" where
  "unpack3 t =
     (case t of
        [a, b, c] \<Rightarrow> Inr (a, b, c)
      | _ \<Rightarrow> if length t < 3 then Inl (ValueError ''not enough values to unpack'')
             else Inl (ValueError ''too many values to unpack''))"

definition float_div :: "real \<Rightarrow> real \<Rightarrow> py_error + real" where
  "float_div x y = (if y = 0 then Inl (ZeroDivisionError ''float division by zero'') else Inr (x / y))"

definition resample_isotropic ::
  "zoom_fn \<Rightarrow> real ndarray \<Rightarrow> real list \<Rightarrow> real list \<Rightarrow> int \<Rightarrow> py_error + real ndarray" where
  "resample_isotropic zoom a spacing new_spacing order =
     and_then (normalize_dims a) (\<lambda>a.
     and_then (unpack3 spacing) (\<lambda>(z_spacing, y_spacing, x_spacing).
     and_then (unpack3 new_spacing) (\<lambda>(new_z, new_y, new_x).
     and_then (float_div z_spacing new_z) (\<lambda>fz.
     and_then (float_div y_spacing new_y) (\<lambda>fy.
     and_then (float_div x_spacing new_x) (\<lambda>fx.
     let zoom_factors = [fz, fy, fx] in
     and_then (zoom a zoom_factors order) (\<lambda>resampled.
     if length zoom_factors \<noteq> ndim a then Inl (ValueError ''[ERROR] Zoom factors'')
     else Inr (astype_float32 resampled))))))))"

text \<open>Python 3's \<^verbatim>\<open>round\<close> on a float: to the nearest integer, a tie to the even one.\<close>

definition py_round :: "real \<Rightarrow> int" where
  "py_round x =
     (let f = \<lfloor>x\<rfloor>; d = x - of_int f
      in if d < 1 / 2 then f
         else if 1 / 2 < d then f + 1
         else if even f then f else f + 1)"

text \<open>
  Modelled from the spec: \<^verbatim>\<open>scipy.ndimage.zoom\<close> is not part of the repository. The
  spec gives the grid it produces: the extent along each axis is
  \<^verbatim>\<open>round(original_extent[axis] * scale_factor[axis])\<close>. An array cannot have a negative
  extent (numpy raises when asked to allocate one). The interpolated values are
  floating-point results and are left to the parameter \<open>interp\<close>, which receives the
  input, the factors, the order and the output shape.
\<close>

definition scipy_zoom ::
  "(real ndarray \<Rightarrow> real list \<Rightarrow> int \<Rightarrow> nat list \<Rightarrow> real list) \<Rightarrow> zoom_fn" where
  "scipy_zoom interp input zoom order =
     (let output_shape = map (\<lambda>(ii, jj). py_round (real ii * jj)) (zip (shape input) zoom)
      in if \<exists>n \<in> set output_shape. n < 0
         then Inl (ValueError ''negative dimensions are not allowed'')
         else Inr \<lparr>shape = map nat output_shape,
                   data = interp input zoom order (map nat output_shape)\<rparr>)"

section \<open>The pipeline: \<^verbatim>\<open>preprocess_series\<close>\<close>

text \<open>\<^verbatim>\<open>os.makedirs(path, exist_ok=True)\<close>: afterwards the directory exists. A regular
  file in the way is not modelled.\<close>

definition ensure_dir :: "filesystem \<Rightarrow> string \<Rightarrow> filesystem" where
  "ensure_dir fs p =
     (case dirs fs p of Some listing \<Rightarrow> fs | None \<Rightarrow> fs\<lparr>dirs := (dirs fs)(p \<mapsto> [])\<rparr>)"

definition np_load :: "filesystem \<Rightarrow> string \<Rightarrow> py_error + real ndarray" where
  "np_load fs p =
     (case npys fs p of
        Some a \<Rightarrow> Inr a
      | None \<Rightarrow> if dirs fs p \<noteq> None then Inl IsADirectoryError
                else Inl (FileNotFoundError ''No such file or directory''))"

definition np_save :: "filesystem \<Rightarrow> string \<Rightarrow> real ndarray \<Rightarrow> filesystem" where
  "np_save fs p a = fs\<lparr>npys := (npys fs)(p \<mapsto> a)\<rparr>"

text \<open>\<^verbatim>\<open>metadata[key]\<close> and the uses the pipeline makes of the three entries it reads.\<close>

definition getitem :: "metadata \<Rightarrow> string \<Rightarrow> py_error + meta_value" where
  "getitem m k = (case m k of None \<Rightarrow> Inl (KeyError k) | Some v \<Rightarrow> Inr v)"

definition as_str :: "meta_value \<Rightarrow> py_error + string" where
  "as_str v = (case v of MStr s \<Rightarrow> Inr s | _ \<Rightarrow> Inl TypeError)"

definition as_float :: "meta_value \<Rightarrow> py_error + real" where
  "as_float v = (case v of MFloat x \<Rightarrow> Inr x | _ \<Rightarrow> Inl TypeError)"

definition as_pair :: "meta_value \<Rightarrow> py_error + (real \<times> real)" where
  "as_pair v = (case v of MFloatPair x y \<Rightarrow> Inr (x, y) | _ \<Rightarrow> Inl TypeError)"

record series_result =
  volume :: "real ndarray"
  metadata :: metadata

text \<open>The part of \<^verbatim>\<open>preprocess_series\<close> after the cache test: load, normalize, resample.
  The resampler is called with its default order 1. Printing and logging (\<^verbatim>\<open>verbose\<close>)
  have no effect on the result and are left out.\<close>

definition preprocess_cold ::
  "zoom_fn \<Rightarrow> filesystem \<Rightarrow> string \<Rightarrow> real list \<Rightarrow> py_error + (real ndarray \<times> metadata)" where
  "preprocess_cold zoom fs series_dir new_spacing =
     and_then (load_dicom_series fs series_dir) (\<lambda>(raw, meta).
     and_then (and_then (getitem meta ''Modality'') as_str) (\<lambda>modality.
     and_then (normalize_volume raw modality) (\<lambda>normed.
     and_then (and_then (getitem meta ''SliceSpacing'') as_float) (\<lambda>slice_spacing.
     and_then (and_then (getitem meta ''PixelSpacing'') as_pair) (\<lambda>pixel_spacing.
     let orig_spacing = [slice_spacing, fst pixel_spacing, snd pixel_spacing] in
     and_then (resample_isotropic zoom normed orig_spacing new_spacing 1) (\<lambda>resampled.
     Inr (resampled, meta)))))))"

definition preprocess_series ::
  "zoom_fn \<Rightarrow> filesystem \<Rightarrow> string \<Rightarrow> real list \<Rightarrow> string \<Rightarrow> bool
     \<Rightarrow> (py_error + series_result) \<times> filesystem" where
  "preprocess_series zoom fs series_dir new_spacing cache_dir use_cache =
     (if \<not> os_path_exists fs series_dir
      then (Inl (FileNotFoundError ''Series directory not found''), fs)
      else
        let fs = ensure_dir fs cache_dir;
            series_id = basename (rstrip_slash series_dir);
            cache_path = path_join cache_dir (series_id @ ''.npy'')
        in if use_cache \<and> os_path_exists fs cache_path
           then (case np_load fs cache_path of
                   Inl e \<Rightarrow> (Inl e, fs)
                 | Inr cached \<Rightarrow>
                     (Inr \<lparr>volume = cached,
                           metadata = [''SeriesInstanceUID'' \<mapsto> MStr series_id]\<rparr>, fs))
           else (case preprocess_cold zoom fs series_dir new_spacing of
                   Inl e \<Rightarrow> (Inl e, fs)
                 | Inr (resampled, meta) \<Rightarrow>
                     (Inr \<lparr>volume = astype_float32 resampled, metadata = meta\<rparr>,
                      if use_cache then np_save fs cache_path (astype_float32 resampled)
                      else fs)))"

section \<open>Notions used in the statements\<close>

text \<open>
  The slices of a series are the datasets of its \<^verbatim>\<open>.dcm\<close> entries that decode, in
  encounter order. \<open>metadata_of\<close> is the dictionary the loader builds from the ordered
  slices and the first of them; \<open>cast_slices\<close> is the list handed to \<^verbatim>\<open>np.stack\<close>;
  \<open>cache_path_of\<close> is the path the pipeline computes for the cached array.
\<close>

definition slices_of :: "string \<Rightarrow> dicom_file list \<Rightarrow> dataset list" where
  "slices_of series_dir listing = List.map_filter snd (dicom_files_of series_dir listing)"

definition metadata_of :: "dataset list \<Rightarrow> dataset \<Rightarrow> metadata" where
  "metadata_of ordered ds0 =
     map_of
       [(''PixelSpacing'',
           (case PixelSpacing ds0 of None \<Rightarrow> MFloatPair 1 1 | Some (r, c) \<Rightarrow> MFloatPair r c)),
        (''SliceSpacing'',
           MFloat (case SliceThickness ds0 of
                     Some t \<Rightarrow> t
                   | None \<Rightarrow> (case SpacingBetweenSlices ds0 of Some s \<Rightarrow> s | None \<Rightarrow> 1))),
        (''SliceLocations'', MFloatList (map position_key ordered)),
        (''SOPInstanceUIDs'', MStrList (map SOPInstanceUID ordered)),
        (''Modality'', MStr (case Modality ds0 of None \<Rightarrow> ''UNKNOWN'' | Some m \<Rightarrow> m)),
        (''SeriesInstanceUID'', opt_str (SeriesInstanceUID ds0)),
        (''PatientID'', opt_str (PatientID ds0))]"

definition cast_slices :: "dataset list \<Rightarrow> int16 ndarray list" where
  "cast_slices ordered = map (\<lambda>ds. astype_int16 (pixel_array ds)) ordered"

definition cache_path_of :: "string \<Rightarrow> string \<Rightarrow> string" where
  "cache_path_of cache_dir series_dir =
     path_join cache_dir (basename (rstrip_slash series_dir) @ ''.npy'')"

section \<open>Concrete inputs\<close>

text \<open>
  A series of five CT slices listed out of order (positions 30, 10, 20, 0, 40) next to a file
  that is no DICOM file, a series whose two slices differ in shape, two single-slice series
  for the spacing fallbacks, small arrays for the resampler and file systems with and without
  a cached array. \<open>blank_interp\<close> fills the output grid with zeros: it stands for the
  interpolated values wherever the resampler is run on a concrete input.
\<close>

definition blank_interp :: "real ndarray \<Rightarrow> real list \<Rightarrow> int \<Rightarrow> nat list \<Rightarrow> real list" where
  "blank_interp input zoom order output_shape = replicate (prod_list output_shape) 0"

definition example_slice ::
  "(real \<times> real \<times> real) option \<Rightarrow> real option \<Rightarrow> int option \<Rightarrow> string \<Rightarrow> int ndarray \<Rightarrow> dataset" where
  "example_slice position location number uid pixels =
     \<lparr>ImagePositionPatient = position, SliceLocation = location, InstanceNumber = number,
      pixel_array = pixels, SOPInstanceUID = uid,
      PixelSpacing = Some (1, 1), SliceThickness = None, SpacingBetweenSlices = Some 2,
      Modality = Some ''CT'', SeriesInstanceUID = Some ''1.2.3'', PatientID = None\<rparr>"

definition ct_slice :: "string \<Rightarrow> real \<Rightarrow> int \<Rightarrow> dataset" where
  "ct_slice uid pos px =
     example_slice (Some (0, 0, pos)) None None uid \<lparr>shape = [1, 2], data = [px, px + 1]\<rparr>"

definition series_listing :: "dicom_file list" where
  "series_listing =
     [(''e.dcm'', Some (ct_slice ''uid30'' 30 3)),
      (''b.dcm'', Some (ct_slice ''uid10'' 10 1)),
      (''notes.txt'', None),
      (''C.DCM'', Some (ct_slice ''uid20'' 20 2)),
      (''a.dcm'', Some (ct_slice ''uid0'' 0 0)),
      (''d.dcm'', Some (ct_slice ''uid40'' 40 40000))]"

definition series_fs :: filesystem where
  "series_fs = \<lparr>dirs = [''series/1.2.3'' \<mapsto> series_listing], npys = Map.empty\<rparr>"

definition series_volume :: "int16 ndarray" where
  "series_volume = \<lparr>shape = [5, 1, 2], data = [0, 1, 1, 2, 2, 3, 3, 4, - 25536, - 25535]\<rparr>"

definition series_meta :: metadata where
  "series_meta =
     map_of
       [(''PixelSpacing'', MFloatPair 1 1),
        (''SliceSpacing'', MFloat 2),
        (''SliceLocations'', MFloatList [0, 10, 20, 30, 40]),
        (''SOPInstanceUIDs'', MStrList [''uid0'', ''uid10'', ''uid20'', ''uid30'', ''uid40'']),
        (''Modality'', MStr ''CT''),
        (''SeriesInstanceUID'', MStr ''1.2.3''),
        (''PatientID'', MNone)]"



definition thick_slice :: dataset where
  "thick_slice = (ct_slice ''uid0'' 0 0)\<lparr>SliceThickness := Some 3\<rparr>"

definition bare_slice :: dataset where
  "bare_slice = (ct_slice ''uid0'' 0 0)\<lparr>PixelSpacing := None, SpacingBetweenSlices := None\<rparr>"

definition spacing_fs :: filesystem where
  "spacing_fs =
     \<lparr>dirs = [''series/thick'' \<mapsto> [(''a.dcm'', Some thick_slice)],
              ''series/bare'' \<mapsto> [(''a.dcm'', Some bare_slice)]],
      npys = Map.empty\<rparr>"

definition small_volume :: "real ndarray" where
  "small_volume = \<lparr>shape = [1, 2, 2], data = [0, 1, 2, 3]\<rparr>"





definition cold_result :: series_result where
  "cold_result =
     \<lparr>volume = \<lparr>shape = [10, 1, 2], data = replicate 20 0\<rparr>, metadata = series_meta\<rparr>"

definition cold_fs :: filesystem where
  "cold_fs =
     \<lparr>dirs = [''series/1.2.3'' \<mapsto> series_listing, ''cache'' \<mapsto> []],
      npys = [''cache/1.2.3.npy'' \<mapsto> \<lparr>shape = [10, 1, 2], data = replicate 20 0\<rparr>]\<rparr>"

section \<open>Auxiliary lemmas\<close>

subsection \<open>Sorting\<close>

lemma insort_key_map:
  "insort_key f (g x) (map g xs) = map g (insort_key (\<lambda>y. f (g y)) x xs)"
  by (induction xs) auto

lemma sort_key_map: "sort_key f (map g xs) = map g (sort_key (\<lambda>y. f (g y)) xs)"
  by (induction xs) (auto simp: insort_key_map)

lemma sort_key_rev_distinct:
  assumes "distinct (map f xs)"
  shows "sort_key f (rev xs) = sort_key f xs"
proof (rule sort_key_inj_key_eq)
  show "mset (rev xs) = mset (sort_key f xs)" by simp
  show "inj_on f (set (rev xs))" using assms by (simp add: distinct_map)
  show "sorted (map f (sort_key f xs))" by simp
qed

lemma sorted_keys_rev: "map f (sort_key f (rev xs)) = map f (sort_key f xs)"
proof -
  have "sort (map f (rev xs)) = map f (sort_key f (rev xs))"
    by (rule properties_for_sort) simp_all
  moreover have "sort (map f (rev xs)) = map f (sort_key f xs)"
    by (rule properties_for_sort) simp_all
  ultimately show ?thesis by simp
qed

lemma hd_sort_key_least:
  assumes "sort_key f xs = y # ys" "x \<in> set xs"
  shows "f y \<le> f x"
proof -
  have "sorted (map f (y # ys))" using assms(1) sorted_sort_key [of f xs] by simp
  moreover have "x \<in> set (y # ys)" using assms by (metis set_sort)
  ultimately show ?thesis by auto
qed

lemma hd_sort_key_first:
  assumes "sort_key f xs = y # ys"
  shows "filter (\<lambda>x. f x = f y) xs = y # filter (\<lambda>x. f x = f y) ys"
proof -
  have "filter (\<lambda>x. f x = f y) (sort_key f xs) = filter (\<lambda>x. f x = f y) xs"
    by (rule sort_key_stable)
  then show ?thesis using assms by simp
qed

subsection \<open>The header loop\<close>

lemma read_headers_corrupt:
  "None \<in> snd ` set files \<Longrightarrow> read_headers files = Inl InvalidDicomError"
proof (induction files rule: read_headers.induct)
  case 1 then show ?case by simp
next
  case (2 fp rest) then show ?case by simp
next
  case (3 fp ds rest)
  then show ?case by (auto simp: and_then_def)
qed

lemma read_headers_decoded:
  "None \<notin> snd ` set files \<Longrightarrow>
   read_headers files =
     Inr (map (\<lambda>f. \<lparr>dataset = the (snd f), z = position_key (the (snd f)), path = fst f\<rparr>) files)"
proof (induction files rule: read_headers.induct)
  case 1 then show ?case by simp
next
  case (2 fp rest) then show ?case by force
next
  case (3 fp ds rest)
  then show ?case by (auto simp: and_then_def)
qed

lemma map_filter_all_Some:
  "None \<notin> f ` set xs \<Longrightarrow> List.map_filter f xs = map (\<lambda>x. the (f x)) xs"
  by (induction xs) (auto simp: List.map_filter_simps split: option.splits)

lemma sorted_instances:
  assumes "None \<notin> snd ` set files"
  shows "map dataset (sort_key z (map (\<lambda>f. \<lparr>dataset = the (snd f), z = position_key (the (snd f)), path = fst f\<rparr>) files))
       = sort_key position_key (List.map_filter snd files)"
  using assms
  by (simp add: sort_key_map map_filter_all_Some o_def)

lemma z_sorted_instances:
  assumes "None \<notin> snd ` set files"
  shows "map z (sort_key z (map (\<lambda>f. \<lparr>dataset = the (snd f), z = position_key (the (snd f)), path = fst f\<rparr>) files))
       = map position_key (sort_key position_key (List.map_filter snd files))"
  using assms
  by (simp add: sort_key_map map_filter_all_Some o_def)

subsection \<open>The assembler in closed form\<close>

lemma assemble_tail:
  assumes "map z (i0 # rest) = map position_key (map dataset (i0 # rest))"
  shows "and_then (np_stack (map (\<lambda>inst. astype_int16 (pixel_array (dataset inst))) (i0 # rest)))
       (\<lambda>vol.
         (case i0 # rest of
            [] \<Rightarrow> Inl IndexError
          | inst0 # _ \<Rightarrow>
              let ds0 = dataset inst0;
                  pixel_spacing = (case PixelSpacing ds0 of None \<Rightarrow> (1, 1) | Some ps \<Rightarrow> ps);
                  slice_thickness = SliceThickness ds0;
                  spacing_between_slices = SpacingBetweenSlices ds0;
                  z_spacing =
                    (case slice_thickness of
                       Some t \<Rightarrow> t
                     | None \<Rightarrow>
                         (case spacing_between_slices of
                            Some s \<Rightarrow> s
                          | None \<Rightarrow> 1))
              in Inr (vol,
                   map_of
                     [(''PixelSpacing'', MFloatPair (fst pixel_spacing) (snd pixel_spacing)),
                      (''SliceSpacing'', MFloat z_spacing),
                      (''SliceLocations'', MFloatList (map z (i0 # rest))),
                      (''SOPInstanceUIDs'', MStrList (map (\<lambda>inst. SOPInstanceUID (dataset inst)) (i0 # rest))),
                      (''Modality'', MStr (case Modality ds0 of None \<Rightarrow> ''UNKNOWN'' | Some m \<Rightarrow> m)),
                      (''SeriesInstanceUID'', opt_str (SeriesInstanceUID ds0)),
                      (''PatientID'', opt_str (PatientID ds0))])))
     = and_then (np_stack (cast_slices (map dataset (i0 # rest))))
         (\<lambda>vol. Inr (vol, metadata_of (map dataset (i0 # rest)) (dataset i0)))"
  unfolding metadata_of_def Let_def list.case assms cast_slices_def
  by (simp add: o_def split: option.splits prod.splits)

lemma load_dicom_series_unfold:
  assumes "dirs fs series_dir = Some listing"
  shows "load_dicom_series fs series_dir =
     (let files = dicom_files_of series_dir listing;
          ordered = sort_key position_key (slices_of series_dir listing)
      in if files = [] then Inl (FileNotFoundError ''No DICOM files found in'')
         else if None \<in> snd ` set files then Inl InvalidDicomError
         else and_then (np_stack (cast_slices ordered))
                (\<lambda>vol. Inr (vol, metadata_of ordered (hd ordered))))"
proof (cases "dicom_files_of series_dir listing = []")
  case True
  then show ?thesis using assms
    by (simp add: load_dicom_series_def os_listdir_def and_then_def)
next
  case ne: False
  show ?thesis
  proof (cases "None \<in> snd ` set (dicom_files_of series_dir listing)")
    case True
    then show ?thesis using assms ne
      by (simp add: load_dicom_series_def os_listdir_def and_then_def read_headers_corrupt)
  next
    case False
    let ?files = "dicom_files_of series_dir listing"
    let ?insts = "sort_key z (map (\<lambda>f. \<lparr>dataset = the (snd f), z = position_key (the (snd f)), path = fst f\<rparr>) ?files)"
    let ?ordered = "sort_key position_key (slices_of series_dir listing)"
    have ds: "map dataset ?insts = ?ordered"
      using sorted_instances [OF False] by (simp add: slices_of_def)
    have zs: "map z ?insts = map position_key ?ordered"
      using z_sorted_instances [OF False] by (simp add: slices_of_def)
    have len: "length ?insts = length ?files" by simp
    then obtain i0 rest where insts: "?insts = i0 # rest"
      using ne by (cases ?insts) auto
    have ds': "map dataset (i0 # rest) = ?ordered" using ds insts by simp
    have zs': "map z (i0 # rest) = map position_key (map dataset (i0 # rest))"
      using zs ds insts by simp
    have hd0: "dataset i0 = hd ?ordered"
      using ds' by (metis list.sel(1) list.simps(9))
    have rh: "read_headers ?files = Inr (map (\<lambda>f. \<lparr>dataset = the (snd f), z = position_key (the (snd f)), path = fst f\<rparr>) ?files)"
      by (rule read_headers_decoded [OF False])
    have "load_dicom_series fs series_dir =
       and_then (np_stack (cast_slices (map dataset (i0 # rest))))
         (\<lambda>vol. Inr (vol, metadata_of (map dataset (i0 # rest)) (dataset i0)))"
      unfolding load_dicom_series_def os_listdir_def assms option.case Let_def
      using ne
      apply (simp only: and_then_def [of "Inr _"] sum.case length_0_conv if_False rh insts)
      apply (rule assemble_tail [OF zs', unfolded Let_def])
      done
    then show ?thesis
      using ne False unfolding ds' hd0 by (simp add: Let_def)
  qed
qed

lemma load_dicom_series_Inr:
  assumes "dirs fs series_dir = Some listing"
      and "load_dicom_series fs series_dir = Inr (vol, meta)"
  shows "dicom_files_of series_dir listing \<noteq> []"
    and "None \<notin> snd ` set (dicom_files_of series_dir listing)"
    and "np_stack (cast_slices (sort_key position_key (slices_of series_dir listing))) = Inr vol"
    and "meta = metadata_of (sort_key position_key (slices_of series_dir listing))
                  (hd (sort_key position_key (slices_of series_dir listing)))"
  using assms(2) unfolding load_dicom_series_unfold [OF assms(1)] Let_def
  by (auto simp: and_then_def split: if_splits sum.splits)

lemma length_slices_of:
  "None \<notin> snd ` set (dicom_files_of series_dir listing) \<Longrightarrow>
   length (slices_of series_dir listing) = length (dicom_files_of series_dir listing)"
  by (simp add: slices_of_def map_filter_all_Some)

lemma dicom_files_of_rev:
  "dicom_files_of series_dir (rev listing) = rev (dicom_files_of series_dir listing)"
  by (simp add: dicom_files_of_def rev_map rev_filter)

lemma slices_of_rev: "slices_of series_dir (rev listing) = rev (slices_of series_dir listing)"
  by (simp add: slices_of_def dicom_files_of_rev List.map_filter_def rev_map rev_filter)


subsection \<open>Stacking and the cast to int16\<close>




lemma np_stack_Inr:
  assumes "np_stack arrays = Inr vol"
  shows "arrays \<noteq> [] \<and> (\<forall>a \<in> set arrays. shape a = shape (hd arrays)) \<and>
         shape vol = length arrays # shape (hd arrays) \<and> data vol = concat (map data arrays)"
  using assms by (cases arrays) (auto simp: np_stack_def split: if_splits)

lemma sint_cast_int16: "sint (cast_int16 p) = (p + 32768) mod 65536 - 32768"
proof -
  have "sint (word_of_int p :: int16) = signed_take_bit 15 p"
    by (simp add: sint_sbintrunc')
  also have "\<dots> = (p + 32768) mod 65536 - 32768"
    by (simp add: signed_take_bit_eq_take_bit_shift take_bit_eq_mod)
  finally show ?thesis by (simp add: cast_int16_def)
qed

lemma sint_cast_int16_exact: "(sint (cast_int16 p) = p) = (- 32768 \<le> p \<and> p \<le> 32767)"
  unfolding sint_cast_int16 by auto

lemma sint_int16_range: "- 32768 \<le> sint (w :: int16) \<and> sint w \<le> 32767"
  using sint_ge [of w] sint_lt [of w] by simp

subsection \<open>The resampler\<close>

lemma normalize_dims_ndim: "normalize_dims a = Inr a' \<Longrightarrow> ndim a' = 3"
  by (auto simp: normalize_dims_def ndim_def split: if_splits)

lemma resample_isotropic_three:
  assumes "normalize_dims a = Inr a'"
  shows "resample_isotropic zoom a [sz, sy, sx] [tz, ty, tx] order =
     (if tz = 0 \<or> ty = 0 \<or> tx = 0 then Inl (ZeroDivisionError ''float division by zero'')
      else and_then (zoom a' [sz / tz, sy / ty, sx / tx] order)
             (\<lambda>resampled. Inr (astype_float32 resampled)))"
  using normalize_dims_ndim [OF assms] assms
  by (simp add: resample_isotropic_def and_then_def unpack3_def float_div_def Let_def
        split: sum.splits)

lemma unpack3_wrong_length:
  "length t \<noteq> 3 \<Longrightarrow>
   unpack3 t = Inl (ValueError (if length t < 3 then ''not enough values to unpack''
                                else ''too many values to unpack''))"
  by (auto simp: unpack3_def split: list.splits)

lemma unpack3_three: "length t = 3 \<Longrightarrow> \<exists>a b c. t = [a, b, c] \<and> unpack3 t = Inr (a, b, c)"
  by (auto simp: unpack3_def length_Suc_conv numeral_3_eq_3 split: list.splits)


subsection \<open>The pipeline\<close>


lemma getitem_as_str: "and_then (getitem m k) as_str = Inr s \<Longrightarrow> m k = Some (MStr s)"
  by (auto simp: and_then_def getitem_def as_str_def split: option.splits meta_value.splits)

lemma getitem_as_float: "and_then (getitem m k) as_float = Inr x \<Longrightarrow> m k = Some (MFloat x)"
  by (auto simp: and_then_def getitem_def as_float_def split: option.splits meta_value.splits)

lemma getitem_as_pair:
  "and_then (getitem m k) as_pair = Inr p \<Longrightarrow> m k = Some (MFloatPair (fst p) (snd p))"
  by (auto simp: and_then_def getitem_def as_pair_def split: option.splits meta_value.splits)

lemma and_then_InrE:
  assumes "and_then r f = Inr y"
  obtains x where "r = Inr x" "f x = Inr y"
  using assms by (cases r) (simp_all add: and_then_def)

lemma preprocess_cold_Inr:
  assumes "preprocess_cold zoom fs series_dir new_spacing = Inr (resampled, meta)"
  shows "\<exists>raw modality normed slice_spacing row_spacing col_spacing.
           load_dicom_series fs series_dir = Inr (raw, meta)
         \<and> meta ''Modality'' = Some (MStr modality)
         \<and> normalize_volume raw modality = Inr normed
         \<and> meta ''SliceSpacing'' = Some (MFloat slice_spacing)
         \<and> meta ''PixelSpacing'' = Some (MFloatPair row_spacing col_spacing)
         \<and> resample_isotropic zoom normed [slice_spacing, row_spacing, col_spacing] new_spacing 1
             = Inr resampled"
  apply (insert assms)
  apply (unfold preprocess_cold_def Let_def)
  apply (erule and_then_InrE)
  apply clarsimp
  apply (elim and_then_InrE)
  apply (auto simp: getitem_def as_str_def as_float_def as_pair_def
              split: option.splits meta_value.splits)
  done


subsection \<open>The concrete inputs, evaluated\<close>

lemma series_dirs: "dirs series_fs ''series/1.2.3'' = Some series_listing"
  by (simp add: series_fs_def)

lemma series_dicom_files:
  "dicom_files_of ''series/1.2.3'' series_listing =
     [(''series/1.2.3/e.dcm'', Some (ct_slice ''uid30'' 30 3)),
      (''series/1.2.3/b.dcm'', Some (ct_slice ''uid10'' 10 1)),
      (''series/1.2.3/C.DCM'', Some (ct_slice ''uid20'' 20 2)),
      (''series/1.2.3/a.dcm'', Some (ct_slice ''uid0'' 0 0)),
      (''series/1.2.3/d.dcm'', Some (ct_slice ''uid40'' 40 40000))]"
  by (simp add: dicom_files_of_def series_listing_def endswith_def lower_def char_lower_def
        path_join_def)

lemma series_slices:
  "slices_of ''series/1.2.3'' series_listing =
     [ct_slice ''uid30'' 30 3, ct_slice ''uid10'' 10 1, ct_slice ''uid20'' 20 2,
      ct_slice ''uid0'' 0 0, ct_slice ''uid40'' 40 40000]"
  by (simp add: slices_of_def series_dicom_files List.map_filter_simps)

lemma position_key_ct_slice: "position_key (ct_slice uid pos px) = pos"
  by (simp add: position_key_def ct_slice_def example_slice_def)

lemma series_sorted:
  "sort_key position_key (slices_of ''series/1.2.3'' series_listing) =
     [ct_slice ''uid0'' 0 0, ct_slice ''uid10'' 10 1, ct_slice ''uid20'' 20 2,
      ct_slice ''uid30'' 30 3, ct_slice ''uid40'' 40 40000]"
  by (simp add: series_slices position_key_ct_slice)

lemma series_load_any:
  assumes "dirs fs ''series/1.2.3'' = Some series_listing"
  shows "load_dicom_series fs ''series/1.2.3'' = Inr (series_volume, series_meta)"
  unfolding load_dicom_series_unfold [OF assms] series_sorted
  by (simp add: series_dicom_files cast_slices_def np_stack_def astype_int16_def cast_int16_def astype_def
        and_then_def metadata_of_def position_key_ct_slice series_volume_def series_meta_def
        opt_str_def ct_slice_def example_slice_def position_key_def)

lemma series_load:
  "load_dicom_series series_fs ''series/1.2.3'' = Inr (series_volume, series_meta)"
  by (rule series_load_any [OF series_dirs])






lemma thick_dirs: "dirs spacing_fs ''series/thick'' = Some [(''a.dcm'', Some thick_slice)]"
  by (simp add: spacing_fs_def)

lemma bare_dirs: "dirs spacing_fs ''series/bare'' = Some [(''a.dcm'', Some bare_slice)]"
  by (simp add: spacing_fs_def)

lemma single_slices: "slices_of series_dir [(''a.dcm'', Some ds)] = [ds]"
  by (simp add: slices_of_def dicom_files_of_def endswith_def lower_def char_lower_def
        List.map_filter_simps)

lemma single_load:
  assumes "dirs fs series_dir = Some [(''a.dcm'', Some ds)]"
  shows "\<exists>vol. load_dicom_series fs series_dir = Inr (vol, metadata_of [ds] ds)"
  unfolding load_dicom_series_unfold [OF assms] single_slices
  by (simp add: dicom_files_of_def endswith_def lower_def char_lower_def cast_slices_def
        np_stack_def and_then_def)

lemma small_volume_dims: "normalize_dims small_volume = Inr small_volume"
  by (simp add: normalize_dims_def ndim_def small_volume_def)

lemma scipy_zoom_small:
  "scipy_zoom blank_interp small_volume [2, 1, 1] 1
     = Inr \<lparr>shape = [2, 2, 2], data = [0, 0, 0, 0, 0, 0, 0, 0]\<rparr>"
  by (simp add: scipy_zoom_def blank_interp_def small_volume_def py_round_def Let_def
        numeral_eq_Suc)


lemma series_cache_path: "cache_path_of ''cache'' ''series/1.2.3'' = ''cache/1.2.3.npy''"
  by (simp add: cache_path_of_def basename_def rstrip_slash_def path_join_def)

lemma series_ensure_dir:
  "ensure_dir series_fs ''cache''
     = \<lparr>dirs = [''series/1.2.3'' \<mapsto> series_listing, ''cache'' \<mapsto> []], npys = Map.empty\<rparr>"
  by (simp add: ensure_dir_def series_fs_def)

lemma series_cold_miss:
  "\<not> (True \<and> os_path_exists (ensure_dir series_fs ''cache'') (cache_path_of ''cache'' ''series/1.2.3''))"
  by (simp add: series_ensure_dir series_cache_path os_path_exists_def)

lemma series_normalized:
  "\<exists>normed. normalize_volume series_volume ''CT'' = Inr normed \<and> shape normed = [5, 1, 2]"
  by (simp add: normalize_volume_def normalize_cta_def upper_def char_upper_def strip_def
        is_space_def Let_def window_intensity_def to_float_def astype_def min_max_scale_def
        and_then_def astype_float32_def series_volume_def)

lemma series_cold:
  "preprocess_cold (scipy_zoom blank_interp)
     \<lparr>dirs = [''series/1.2.3'' \<mapsto> series_listing, ''cache'' \<mapsto> []], npys = Map.empty\<rparr>
     ''series/1.2.3'' [1, 1, 1]
   = Inr (\<lparr>shape = [10, 1, 2], data = replicate 20 0\<rparr>, series_meta)"
proof -
  have l: "load_dicom_series
     \<lparr>dirs = [''series/1.2.3'' \<mapsto> series_listing, ''cache'' \<mapsto> []], npys = Map.empty\<rparr>
     ''series/1.2.3'' = Inr (series_volume, series_meta)"
    by (rule series_load_any) simp
  obtain normed where n: "normalize_volume series_volume ''CT'' = Inr normed"
    and s: "shape normed = [5, 1, 2]"
    using series_normalized by blast
  have r: "resample_isotropic (scipy_zoom blank_interp) normed [2, 1, 1] [1, 1, 1] 1
             = Inr \<lparr>shape = [10, 1, 2], data = replicate 20 0\<rparr>"
    using s
    by (simp add: resample_isotropic_def normalize_dims_def ndim_def unpack3_def float_div_def
          and_then_def scipy_zoom_def blank_interp_def py_round_def astype_float32_def Let_def)
  show ?thesis
    unfolding preprocess_cold_def l
    by (simp add: and_then_def getitem_def as_str_def as_float_def as_pair_def series_meta_def
          n [unfolded series_meta_def] r [unfolded series_meta_def])
qed

lemma series_preprocess:
  "preprocess_series (scipy_zoom blank_interp) series_fs ''series/1.2.3'' [1, 1, 1] ''cache'' True
     = (Inr cold_result, cold_fs)"
proof -
  have e: "os_path_exists series_fs ''series/1.2.3''"
    by (simp add: os_path_exists_def series_fs_def)
  have b: "path_join ''cache'' (basename (rstrip_slash ''series/1.2.3'') @ ''.npy'') = ''cache/1.2.3.npy''"
    using series_cache_path by (simp add: cache_path_of_def)
  have m: "\<not> os_path_exists (ensure_dir series_fs ''cache'') ''cache/1.2.3.npy''"
    using series_cold_miss by (simp add: series_cache_path)
  show ?thesis
    unfolding preprocess_series_def Let_def b
    apply (simp only: e m series_cold [folded series_ensure_dir] not_True_eq_False if_False simp_thms sum.case prod.case if_True)
    apply (simp add: series_ensure_dir np_save_def astype_float32_def cold_result_def cold_fs_def)
    done
qed




section \<open>The verified properties\<close>

subsection \<open>Slice ordering\<close>

text \<open>
  Claim C2. Whenever the assembler returns a volume, there is an order of the input slices
  (a permutation of the decoded slices, none dropped) that is non-decreasing in the position
  key, keeps the encounter order among slices of equal key, and is the order of both the
  stacked volume and the per-slice metadata. The position key of a slice is the third
  component of \<open>ImagePositionPatient\<close> when present, else \<open>SliceLocation\<close>, else
  \<open>InstanceNumber\<close>, else \<open>0\<close>.
\<close>

theorem assembler_sorts_by_position_key:
  assumes "dirs fs series_dir = Some listing"
      and "load_dicom_series fs series_dir = Inr (vol, meta)"
  shows "(\<exists>ordered.
            mset ordered = mset (slices_of series_dir listing)
          \<and> length ordered = length (dicom_files_of series_dir listing)
          \<and> sorted (map position_key ordered)
          \<and> (\<forall>k. filter (\<lambda>ds. position_key ds = k) ordered
                 = filter (\<lambda>ds. position_key ds = k) (slices_of series_dir listing))
          \<and> np_stack (map (\<lambda>ds. astype_int16 (pixel_array ds)) ordered) = Inr vol
          \<and> meta ''SliceLocations'' = Some (MFloatList (map position_key ordered))
          \<and> meta ''SOPInstanceUIDs'' = Some (MStrList (map SOPInstanceUID ordered)))
       \<and> (\<forall>ds.
            (\<forall>px py pz. ImagePositionPatient ds = Some (px, py, pz) \<longrightarrow> position_key ds = pz)
          \<and> (\<forall>loc. ImagePositionPatient ds = None \<and> SliceLocation ds = Some loc
                 \<longrightarrow> position_key ds = loc)
          \<and> (\<forall>n. ImagePositionPatient ds = None \<and> SliceLocation ds = None
                     \<and> InstanceNumber ds = Some n
                 \<longrightarrow> position_key ds = real_of_int n)
          \<and> (ImagePositionPatient ds = None \<and> SliceLocation ds = None
                 \<and> InstanceNumber ds = None
                 \<longrightarrow> position_key ds = 0))"
proof (intro conjI)
  let ?ordered = "sort_key position_key (slices_of series_dir listing)"
  note facts = load_dicom_series_Inr [OF assms]
  have "mset ?ordered = mset (slices_of series_dir listing)" by simp
  moreover have "length ?ordered = length (dicom_files_of series_dir listing)"
    using facts(2) by (simp add: length_slices_of)
  moreover have "sorted (map position_key ?ordered)" by simp
  moreover have "\<forall>k. filter (\<lambda>ds. position_key ds = k) ?ordered
                 = filter (\<lambda>ds. position_key ds = k) (slices_of series_dir listing)"
    by (simp add: sort_key_stable)
  moreover have "np_stack (map (\<lambda>ds. astype_int16 (pixel_array ds)) ?ordered) = Inr vol"
    using facts(3) by (simp add: cast_slices_def)
  moreover have "meta ''SliceLocations'' = Some (MFloatList (map position_key ?ordered))"
    unfolding facts(4) by (simp add: metadata_of_def)
  moreover have "meta ''SOPInstanceUIDs'' = Some (MStrList (map SOPInstanceUID ?ordered))"
    unfolding facts(4) by (simp add: metadata_of_def)
  ultimately show "\<exists>ordered.
            mset ordered = mset (slices_of series_dir listing)
          \<and> length ordered = length (dicom_files_of series_dir listing)
          \<and> sorted (map position_key ordered)
          \<and> (\<forall>k. filter (\<lambda>ds. position_key ds = k) ordered
                 = filter (\<lambda>ds. position_key ds = k) (slices_of series_dir listing))
          \<and> np_stack (map (\<lambda>ds. astype_int16 (pixel_array ds)) ordered) = Inr vol
          \<and> meta ''SliceLocations'' = Some (MFloatList (map position_key ordered))
          \<and> meta ''SOPInstanceUIDs'' = Some (MStrList (map SOPInstanceUID ordered))"
    by blast
next
  show "\<forall>ds.
            (\<forall>px py pz. ImagePositionPatient ds = Some (px, py, pz) \<longrightarrow> position_key ds = pz)
          \<and> (\<forall>loc. ImagePositionPatient ds = None \<and> SliceLocation ds = Some loc
                 \<longrightarrow> position_key ds = loc)
          \<and> (\<forall>n. ImagePositionPatient ds = None \<and> SliceLocation ds = None
                     \<and> InstanceNumber ds = Some n
                 \<longrightarrow> position_key ds = real_of_int n)
          \<and> (ImagePositionPatient ds = None \<and> SliceLocation ds = None
                 \<and> InstanceNumber ds = None
                 \<longrightarrow> position_key ds = 0)"
    by (simp add: position_key_def)
qed

text \<open>
  The five slices at positions 30, 10, 20, 0, 40 come out at 0, 10, 20, 30, 40, and the four
  cases of the fallback are met by four slices.
\<close>

theorem assembler_sorts_by_position_key_witness:
  "dirs series_fs ''series/1.2.3'' = Some series_listing
   \<and> load_dicom_series series_fs ''series/1.2.3'' = Inr (series_volume, series_meta)
   \<and> series_meta ''SliceLocations'' = Some (MFloatList [0, 10, 20, 30, 40])
   \<and> (\<exists>ordered. mset ordered = mset (slices_of ''series/1.2.3'' series_listing)
         \<and> sorted (map position_key ordered)
         \<and> np_stack (map (\<lambda>ds. astype_int16 (pixel_array ds)) ordered) = Inr series_volume
         \<and> series_meta ''SliceLocations'' = Some (MFloatList (map position_key ordered)))
   \<and> position_key (example_slice (Some (1, 2, 30)) (Some 7) (Some 4) ''u'' \<lparr>shape = [], data = [0]\<rparr>) = 30
   \<and> position_key (example_slice None (Some 7) (Some 4) ''u'' \<lparr>shape = [], data = [0]\<rparr>) = 7
   \<and> position_key (example_slice None None (Some 4) ''u'' \<lparr>shape = [], data = [0]\<rparr>) = 4
   \<and> position_key (example_slice None None None ''u'' \<lparr>shape = [], data = [0]\<rparr>) = 0"
proof -
  note T = assembler_sorts_by_position_key [OF series_dirs series_load]
  from T have A: "\<exists>ordered. mset ordered = mset (slices_of ''series/1.2.3'' series_listing)
         \<and> sorted (map position_key ordered)
         \<and> np_stack (map (\<lambda>ds. astype_int16 (pixel_array ds)) ordered) = Inr series_volume
         \<and> series_meta ''SliceLocations'' = Some (MFloatList (map position_key ordered))"
    by blast
  from T have B: "\<forall>ds.
            (\<forall>px py pz. ImagePositionPatient ds = Some (px, py, pz) \<longrightarrow> position_key ds = pz)
          \<and> (\<forall>loc. ImagePositionPatient ds = None \<and> SliceLocation ds = Some loc
                 \<longrightarrow> position_key ds = loc)
          \<and> (\<forall>n. ImagePositionPatient ds = None \<and> SliceLocation ds = None
                     \<and> InstanceNumber ds = Some n
                 \<longrightarrow> position_key ds = real_of_int n)
          \<and> (ImagePositionPatient ds = None \<and> SliceLocation ds = None
                 \<and> InstanceNumber ds = None
                 \<longrightarrow> position_key ds = 0)"
    by (rule conjunct2)
  have k1: "position_key (example_slice (Some (1, 2, 30)) (Some 7) (Some 4) ''u'' \<lparr>shape = [], data = [0]\<rparr>) = 30"
    using B [rule_format, of "example_slice (Some (1, 2, 30)) (Some 7) (Some 4) ''u'' \<lparr>shape = [], data = [0]\<rparr>"]
    by (simp add: example_slice_def)
  have k2: "position_key (example_slice None (Some 7) (Some 4) ''u'' \<lparr>shape = [], data = [0]\<rparr>) = 7"
    using B [rule_format, of "example_slice None (Some 7) (Some 4) ''u'' \<lparr>shape = [], data = [0]\<rparr>"]
    by (simp add: example_slice_def)
  have k3: "position_key (example_slice None None (Some 4) ''u'' \<lparr>shape = [], data = [0]\<rparr>) = 4"
    using B [rule_format, of "example_slice None None (Some 4) ''u'' \<lparr>shape = [], data = [0]\<rparr>"]
    by (simp add: example_slice_def)
  have k4: "position_key (example_slice None None None ''u'' \<lparr>shape = [], data = [0]\<rparr>) = 0"
    using B [rule_format, of "example_slice None None None ''u'' \<lparr>shape = [], data = [0]\<rparr>"]
    by (simp add: example_slice_def)
  have m: "series_meta ''SliceLocations'' = Some (MFloatList [0, 10, 20, 30, 40])"
    by (simp add: series_meta_def)
  show ?thesis
    using series_dirs series_load m A k1 k2 k3 k4 by (intro conjI) assumption+
qed

subsection \<open>Shape of the assembled volume\<close>



subsection \<open>Independence of the encounter order\<close>

text \<open>
  Claim C4. When the position keys of the slices are pairwise distinct, listing the directory
  in reversed order gives the same result: the same volume and metadata, or the same failure.
  Without that assumption the sorted sequence of keys is still the same, so encounter order
  shows only among slices of equal key.
\<close>

theorem assembler_reversal:
  assumes "dirs fs series_dir = Some listing"
  shows "(distinct (map position_key (slices_of series_dir listing))
           \<longrightarrow> load_dicom_series (fs\<lparr>dirs := (dirs fs)(series_dir \<mapsto> rev listing)\<rparr>) series_dir
                = load_dicom_series fs series_dir)
       \<and> (\<forall>vol meta vol' meta'.
             load_dicom_series fs series_dir = Inr (vol, meta)
           \<and> load_dicom_series (fs\<lparr>dirs := (dirs fs)(series_dir \<mapsto> rev listing)\<rparr>) series_dir
               = Inr (vol', meta')
           \<longrightarrow> meta' ''SliceLocations'' = meta ''SliceLocations'')"
proof (intro conjI impI allI)
  let ?fs' = "fs\<lparr>dirs := (dirs fs)(series_dir \<mapsto> rev listing)\<rparr>"
  have d': "dirs ?fs' series_dir = Some (rev listing)" by simp
  {
    assume "distinct (map position_key (slices_of series_dir listing))"
    then have "sort_key position_key (rev (slices_of series_dir listing))
             = sort_key position_key (slices_of series_dir listing)"
      by (rule sort_key_rev_distinct)
    then show "load_dicom_series ?fs' series_dir = load_dicom_series fs series_dir"
      unfolding load_dicom_series_unfold [OF assms] load_dicom_series_unfold [OF d']
      by (simp add: dicom_files_of_rev slices_of_rev Let_def)
  }
  {
    fix vol meta vol' meta'
    assume "load_dicom_series fs series_dir = Inr (vol, meta)
           \<and> load_dicom_series ?fs' series_dir = Inr (vol', meta')"
    then have a: "load_dicom_series fs series_dir = Inr (vol, meta)"
      and b: "load_dicom_series ?fs' series_dir = Inr (vol', meta')" by simp_all
    show "meta' ''SliceLocations'' = meta ''SliceLocations''"
      unfolding load_dicom_series_Inr(4) [OF assms a] load_dicom_series_Inr(4) [OF d' b]
      by (simp add: metadata_of_def slices_of_rev sorted_keys_rev)
  }
qed

text \<open>
  The five-slice series, listed in reverse, assembles to the same volume and metadata.
\<close>

theorem assembler_reversal_witness:
  "dirs series_fs ''series/1.2.3'' = Some series_listing
   \<and> distinct (map position_key (slices_of ''series/1.2.3'' series_listing))
   \<and> load_dicom_series (series_fs\<lparr>dirs := (dirs series_fs)(''series/1.2.3'' \<mapsto> rev series_listing)\<rparr>)
       ''series/1.2.3''
     = Inr (series_volume, series_meta)"
proof -
  have d: "distinct (map position_key (slices_of ''series/1.2.3'' series_listing))"
    by (simp add: series_slices position_key_ct_slice)
  have "load_dicom_series (series_fs\<lparr>dirs := (dirs series_fs)(''series/1.2.3'' \<mapsto> rev series_listing)\<rparr>)
       ''series/1.2.3'' = load_dicom_series series_fs ''series/1.2.3''"
    using assembler_reversal [OF series_dirs] d by blast
  then show ?thesis using series_dirs d series_load by simp
qed

subsection \<open>Spacing fallbacks\<close>

text \<open>
  Claim C7. Whenever the assembler returns, the spacing entries of the metadata come from the
  first slice of the sorted order (a slice of least position key, the first encountered among
  those, and the one at index 0 of the volume): the through-plane spacing is its
  \<open>SliceThickness\<close> when present, else its \<open>SpacingBetweenSlices\<close> when present, else
  \<open>1.0\<close>; the in-plane spacing is its \<open>PixelSpacing\<close>, else \<open>(1.0, 1.0)\<close>.
\<close>

theorem assembler_spacing:
  assumes "dirs fs series_dir = Some listing"
      and "load_dicom_series fs series_dir = Inr (vol, meta)"
  shows "\<exists>ds0 others.
           ds0 \<in> set (slices_of series_dir listing)
         \<and> (\<forall>ds \<in> set (slices_of series_dir listing). position_key ds0 \<le> position_key ds)
         \<and> filter (\<lambda>ds. position_key ds = position_key ds0) (slices_of series_dir listing)
             = ds0 # others
         \<and> (\<exists>uids. meta ''SOPInstanceUIDs'' = Some (MStrList (SOPInstanceUID ds0 # uids)))
         \<and> (\<forall>t. SliceThickness ds0 = Some t \<longrightarrow> meta ''SliceSpacing'' = Some (MFloat t))
         \<and> (\<forall>s. SliceThickness ds0 = None \<and> SpacingBetweenSlices ds0 = Some s
                \<longrightarrow> meta ''SliceSpacing'' = Some (MFloat s))
         \<and> (SliceThickness ds0 = None \<and> SpacingBetweenSlices ds0 = None
                \<longrightarrow> meta ''SliceSpacing'' = Some (MFloat 1))
         \<and> (\<forall>r c. PixelSpacing ds0 = Some (r, c)
                \<longrightarrow> meta ''PixelSpacing'' = Some (MFloatPair r c))
         \<and> (PixelSpacing ds0 = None \<longrightarrow> meta ''PixelSpacing'' = Some (MFloatPair 1 1))"
proof -
  let ?slices = "slices_of series_dir listing"
  let ?ordered = "sort_key position_key ?slices"
  note facts = load_dicom_series_Inr [OF assms]
  have "length ?ordered = length (dicom_files_of series_dir listing)"
    using facts(2) by (simp add: length_slices_of)
  then obtain ds0 rest where ord: "?ordered = ds0 # rest"
    using facts(1) by (cases ?ordered) auto
  have m: "meta = metadata_of (ds0 # rest) ds0"
    using facts(4) ord by simp
  have f1: "ds0 \<in> set ?slices"
    using ord by (metis list.set_intros(1) set_sort)
  have f2: "\<forall>ds \<in> set ?slices. position_key ds0 \<le> position_key ds"
    using hd_sort_key_least [OF ord] by blast
  have f3: "filter (\<lambda>ds. position_key ds = position_key ds0) ?slices
             = ds0 # filter (\<lambda>ds. position_key ds = position_key ds0) rest"
    by (rule hd_sort_key_first [OF ord])
  have f4: "\<exists>uids. meta ''SOPInstanceUIDs'' = Some (MStrList (SOPInstanceUID ds0 # uids))"
    unfolding m by (simp add: metadata_of_def)
  have f5: "\<forall>t. SliceThickness ds0 = Some t \<longrightarrow> meta ''SliceSpacing'' = Some (MFloat t)"
    unfolding m by (simp add: metadata_of_def)
  have f6: "\<forall>s. SliceThickness ds0 = None \<and> SpacingBetweenSlices ds0 = Some s
                \<longrightarrow> meta ''SliceSpacing'' = Some (MFloat s)"
    unfolding m by (simp add: metadata_of_def)
  have f7: "SliceThickness ds0 = None \<and> SpacingBetweenSlices ds0 = None
                \<longrightarrow> meta ''SliceSpacing'' = Some (MFloat 1)"
    unfolding m by (simp add: metadata_of_def)
  have f8: "\<forall>r c. PixelSpacing ds0 = Some (r, c)
                \<longrightarrow> meta ''PixelSpacing'' = Some (MFloatPair r c)"
    unfolding m by (simp add: metadata_of_def)
  have f9: "PixelSpacing ds0 = None \<longrightarrow> meta ''PixelSpacing'' = Some (MFloatPair 1 1)"
    unfolding m by (simp add: metadata_of_def)
  show ?thesis
    using f1 f2 f3 f4 f5 f6 f7 f8 f9
    by (intro exI [of _ ds0] exI [of _ "filter (\<lambda>ds. position_key ds = position_key ds0) rest"] conjI)
       assumption+
qed

text \<open>
  Spacing-between-slices 2 without a thickness gives 2; thickness 3 wins over
  spacing-between-slices 2; with neither, and without pixel spacing, the defaults apply.
\<close>

theorem assembler_spacing_witness:
  "(\<exists>vol meta. load_dicom_series series_fs ''series/1.2.3'' = Inr (vol, meta)
       \<and> meta ''SliceSpacing'' = Some (MFloat 2) \<and> meta ''PixelSpacing'' = Some (MFloatPair 1 1))
   \<and> (\<exists>vol meta. load_dicom_series spacing_fs ''series/thick'' = Inr (vol, meta)
       \<and> meta ''SliceSpacing'' = Some (MFloat 3))
   \<and> (\<exists>vol meta. load_dicom_series spacing_fs ''series/bare'' = Inr (vol, meta)
       \<and> meta ''SliceSpacing'' = Some (MFloat 1) \<and> meta ''PixelSpacing'' = Some (MFloatPair 1 1))"
proof (intro conjI)
  from assembler_spacing [OF series_dirs series_load]
  obtain ds0 where "ds0 \<in> set (slices_of ''series/1.2.3'' series_listing)"
    and "\<forall>s. SliceThickness ds0 = None \<and> SpacingBetweenSlices ds0 = Some s
                \<longrightarrow> series_meta ''SliceSpacing'' = Some (MFloat s)"
    and "\<forall>r c. PixelSpacing ds0 = Some (r, c)
                \<longrightarrow> series_meta ''PixelSpacing'' = Some (MFloatPair r c)"
    by (elim exE conjE) auto
  then have "series_meta ''SliceSpacing'' = Some (MFloat 2)
           \<and> series_meta ''PixelSpacing'' = Some (MFloatPair 1 1)"
    by (auto simp: series_slices ct_slice_def example_slice_def)
  then show "\<exists>vol meta. load_dicom_series series_fs ''series/1.2.3'' = Inr (vol, meta)
       \<and> meta ''SliceSpacing'' = Some (MFloat 2) \<and> meta ''PixelSpacing'' = Some (MFloatPair 1 1)"
    using series_load by blast
next
  from single_load [OF thick_dirs] obtain vol where
    l: "load_dicom_series spacing_fs ''series/thick'' = Inr (vol, metadata_of [thick_slice] thick_slice)"
    by blast
  from assembler_spacing [OF thick_dirs l]
  obtain ds0 where "ds0 \<in> set (slices_of ''series/thick'' [(''a.dcm'', Some thick_slice)])"
    and "\<forall>t. SliceThickness ds0 = Some t
            \<longrightarrow> metadata_of [thick_slice] thick_slice ''SliceSpacing'' = Some (MFloat t)"
    by (elim exE conjE) auto
  then have "metadata_of [thick_slice] thick_slice ''SliceSpacing'' = Some (MFloat 3)"
    by (auto simp: single_slices thick_slice_def)
  then show "\<exists>vol meta. load_dicom_series spacing_fs ''series/thick'' = Inr (vol, meta)
       \<and> meta ''SliceSpacing'' = Some (MFloat 3)"
    using l by blast
next
  from single_load [OF bare_dirs] obtain vol where
    l: "load_dicom_series spacing_fs ''series/bare'' = Inr (vol, metadata_of [bare_slice] bare_slice)"
    by blast
  from assembler_spacing [OF bare_dirs l]
  obtain ds0 where "ds0 \<in> set (slices_of ''series/bare'' [(''a.dcm'', Some bare_slice)])"
    and "SliceThickness ds0 = None \<and> SpacingBetweenSlices ds0 = None
            \<longrightarrow> metadata_of [bare_slice] bare_slice ''SliceSpacing'' = Some (MFloat 1)"
    and "PixelSpacing ds0 = None
            \<longrightarrow> metadata_of [bare_slice] bare_slice ''PixelSpacing'' = Some (MFloatPair 1 1)"
    by (elim exE conjE) auto
  then have "metadata_of [bare_slice] bare_slice ''SliceSpacing'' = Some (MFloat 1)
           \<and> metadata_of [bare_slice] bare_slice ''PixelSpacing'' = Some (MFloatPair 1 1)"
    by (auto simp: single_slices bare_slice_def ct_slice_def example_slice_def)
  then show "\<exists>vol meta. load_dicom_series spacing_fs ''series/bare'' = Inr (vol, meta)
       \<and> meta ''SliceSpacing'' = Some (MFloat 1) \<and> meta ''PixelSpacing'' = Some (MFloatPair 1 1)"
    using l by blast
qed

subsection \<open>The cast to int16\<close>

text \<open>
  Claim C10. Whenever the assembler returns, the volume is the stack of the slices after each
  was cast to int16, so every element lies in the signed 16-bit range. The cast keeps the
  value modulo \<open>2^16\<close>: it is exact precisely on the values between \<open>-32768\<close> and
  \<open>32767\<close>, and any other pixel value is changed.
\<close>

theorem assembler_casts_to_int16:
  assumes "dirs fs series_dir = Some listing"
      and "load_dicom_series fs series_dir = Inr (vol, meta)"
  shows "(\<exists>ordered.
            mset ordered = mset (slices_of series_dir listing)
          \<and> np_stack (map (\<lambda>ds. astype cast_int16 (pixel_array ds)) ordered) = Inr vol
          \<and> data vol = map cast_int16 (concat (map (\<lambda>ds. data (pixel_array ds)) ordered)))
       \<and> (\<forall>x \<in> set (data vol). - 32768 \<le> sint x \<and> sint x \<le> 32767)
       \<and> (\<forall>p. sint (cast_int16 p) = (p + 32768) mod 65536 - 32768)
       \<and> (\<forall>p. (sint (cast_int16 p) = p) = (- 32768 \<le> p \<and> p \<le> 32767))"
proof (intro conjI)
  let ?ordered = "sort_key position_key (slices_of series_dir listing)"
  note facts = load_dicom_series_Inr [OF assms]
  have c: "cast_slices ?ordered = map (\<lambda>ds. astype cast_int16 (pixel_array ds)) ?ordered"
    by (simp add: cast_slices_def astype_int16_def)
  have st: "np_stack (map (\<lambda>ds. astype cast_int16 (pixel_array ds)) ?ordered) = Inr vol"
    using facts(3) c by simp
  have "data vol = concat (map data (map (\<lambda>ds. astype cast_int16 (pixel_array ds)) ?ordered))"
    using np_stack_Inr [OF st] by simp
  also have "\<dots> = map cast_int16 (concat (map (\<lambda>ds. data (pixel_array ds)) ?ordered))"
    by (simp add: map_concat o_def astype_def)
  finally have "data vol = map cast_int16 (concat (map (\<lambda>ds. data (pixel_array ds)) ?ordered))" .
  with st show "\<exists>ordered.
            mset ordered = mset (slices_of series_dir listing)
          \<and> np_stack (map (\<lambda>ds. astype cast_int16 (pixel_array ds)) ordered) = Inr vol
          \<and> data vol = map cast_int16 (concat (map (\<lambda>ds. data (pixel_array ds)) ordered))"
    using mset_sort [of position_key "slices_of series_dir listing"] by blast
  show "\<forall>x \<in> set (data vol). - 32768 \<le> sint x \<and> sint x \<le> 32767"
    using sint_int16_range by blast
  show "\<forall>p. sint (cast_int16 p) = (p + 32768) mod 65536 - 32768"
    by (simp add: sint_cast_int16)
  show "\<forall>p. (sint (cast_int16 p) = p) = (- 32768 \<le> p \<and> p \<le> 32767)"
    by (simp add: sint_cast_int16_exact)
qed

text \<open>
  The stored pixel value 40000 arrives as -25536.
\<close>

theorem assembler_casts_to_int16_witness:
  "load_dicom_series series_fs ''series/1.2.3'' = Inr (series_volume, series_meta)
   \<and> data series_volume = [0, 1, 1, 2, 2, 3, 3, 4, - 25536, - 25535]
   \<and> list_all (\<lambda>x. - 32768 \<le> sint x \<and> sint x \<le> 32767) (data series_volume)
   \<and> sint (cast_int16 40000) = - 25536
   \<and> sint (cast_int16 (- 7)) = - 7"
proof -
  note T = assembler_casts_to_int16 [OF series_dirs series_load]
  from T have "\<forall>x \<in> set (data series_volume). - 32768 \<le> sint x \<and> sint x \<le> 32767"
    by blast
  then have r: "list_all (\<lambda>x. - 32768 \<le> sint x \<and> sint x \<le> 32767) (data series_volume)"
    by (simp only: list_all_iff)
  from T have w: "\<forall>p. sint (cast_int16 p) = (p + 32768) mod 65536 - 32768" by blast
  have a: "sint (cast_int16 40000) = - 25536" using w [rule_format, of 40000] by simp
  have b: "sint (cast_int16 (- 7)) = - 7" using w [rule_format, of "- 7"] by simp
  have d: "data series_volume = [0, 1, 1, 2, 2, 3, 3, 4, - 25536, - 25535]"
    by (simp add: series_volume_def)
  show ?thesis using series_load d r a b by (intro conjI) assumption+
qed

subsection \<open>Rank and spacing-length checks of the resampler\<close>

text \<open>
  Claim C5. The resampler first normalizes the dimensionality: a rank other than 2, 3, or 4
  with a leading axis of size 1 fails with the \<^verbatim>\<open>ValueError\<close> "Unexpected volume shape"
  (the unsupported-rank failure); a 2D array \<open>(H, W)\<close> is interpolated as \<open>(1, H, W)\<close> and a
  4D array \<open>(1, D, H, W)\<close> as \<open>(D, H, W)\<close>. After that a spacing (and then a target
  spacing) with a number of components other than 3 fails with the \<^verbatim>\<open>ValueError\<close> of the
  tuple unpacking (the spacing-rank failure). Both failures are the same for every
  interpolation \<open>zoom\<close>: they occur before it is called.
\<close>

theorem resampler_rank_and_spacing_checks:
  "(ndim a \<noteq> 2 \<and> ndim a \<noteq> 3 \<and> \<not> (ndim a = 4 \<and> hd (shape a) = 1)
      \<longrightarrow> resample_isotropic zoom a spacing new_spacing order
            = Inl (ValueError ''Unexpected volume shape''))
 \<and> ((ndim a = 2 \<or> ndim a = 3 \<or> (ndim a = 4 \<and> hd (shape a) = 1)) \<and> length spacing \<noteq> 3
      \<longrightarrow> resample_isotropic zoom a spacing new_spacing order
            = Inl (ValueError (if length spacing < 3 then ''not enough values to unpack''
                               else ''too many values to unpack'')))
 \<and> ((ndim a = 2 \<or> ndim a = 3 \<or> (ndim a = 4 \<and> hd (shape a) = 1)) \<and> length spacing = 3
        \<and> length new_spacing \<noteq> 3
      \<longrightarrow> resample_isotropic zoom a spacing new_spacing order
            = Inl (ValueError (if length new_spacing < 3 then ''not enough values to unpack''
                               else ''too many values to unpack'')))
 \<and> (\<forall>h w. shape a = [h, w] \<and> tz \<noteq> 0 \<and> ty \<noteq> 0 \<and> tx \<noteq> 0
      \<longrightarrow> resample_isotropic zoom a [sz, sy, sx] [tz, ty, tx] order
            = and_then (zoom (a\<lparr>shape := [1, h, w]\<rparr>) [sz / tz, sy / ty, sx / tx] order)
                (\<lambda>resampled. Inr (astype_float32 resampled)))
 \<and> (\<forall>d h w. shape a = [1, d, h, w] \<and> tz \<noteq> 0 \<and> ty \<noteq> 0 \<and> tx \<noteq> 0
      \<longrightarrow> resample_isotropic zoom a [sz, sy, sx] [tz, ty, tx] order
            = and_then (zoom (a\<lparr>shape := [d, h, w]\<rparr>) [sz / tz, sy / ty, sx / tx] order)
                (\<lambda>resampled. Inr (astype_float32 resampled)))"
proof (intro conjI impI allI)
  assume "ndim a \<noteq> 2 \<and> ndim a \<noteq> 3 \<and> \<not> (ndim a = 4 \<and> hd (shape a) = 1)"
  then have "normalize_dims a = Inl (ValueError ''Unexpected volume shape'')"
    by (auto simp: normalize_dims_def)
  then show "resample_isotropic zoom a spacing new_spacing order
            = Inl (ValueError ''Unexpected volume shape'')"
    by (simp add: resample_isotropic_def and_then_def)
next
  assume h: "(ndim a = 2 \<or> ndim a = 3 \<or> (ndim a = 4 \<and> hd (shape a) = 1)) \<and> length spacing \<noteq> 3"
  then obtain a' where "normalize_dims a = Inr a'"
    by (auto simp: normalize_dims_def)
  then show "resample_isotropic zoom a spacing new_spacing order
            = Inl (ValueError (if length spacing < 3 then ''not enough values to unpack''
                               else ''too many values to unpack''))"
    using h unpack3_wrong_length [of spacing]
    by (simp add: resample_isotropic_def and_then_def)
next
  assume h: "(ndim a = 2 \<or> ndim a = 3 \<or> (ndim a = 4 \<and> hd (shape a) = 1)) \<and> length spacing = 3
        \<and> length new_spacing \<noteq> 3"
  then obtain a' where "normalize_dims a = Inr a'"
    by (auto simp: normalize_dims_def)
  moreover obtain s1 s2 s3 where "unpack3 spacing = Inr (s1, s2, s3)"
    using h unpack3_three [of spacing] by blast
  ultimately show "resample_isotropic zoom a spacing new_spacing order
            = Inl (ValueError (if length new_spacing < 3 then ''not enough values to unpack''
                               else ''too many values to unpack''))"
    using h unpack3_wrong_length [of new_spacing]
    by (simp add: resample_isotropic_def and_then_def)
next
  fix h w
  assume h: "shape a = [h, w] \<and> tz \<noteq> 0 \<and> ty \<noteq> 0 \<and> tx \<noteq> 0"
  then have "normalize_dims a = Inr (a\<lparr>shape := [1, h, w]\<rparr>)"
    by (simp add: normalize_dims_def ndim_def)
  from resample_isotropic_three [OF this] h
  show "resample_isotropic zoom a [sz, sy, sx] [tz, ty, tx] order
            = and_then (zoom (a\<lparr>shape := [1, h, w]\<rparr>) [sz / tz, sy / ty, sx / tx] order)
                (\<lambda>resampled. Inr (astype_float32 resampled))"
    by simp
next
  fix d h w
  assume h: "shape a = [1, d, h, w] \<and> tz \<noteq> 0 \<and> ty \<noteq> 0 \<and> tx \<noteq> 0"
  then have "normalize_dims a = Inr (a\<lparr>shape := [d, h, w]\<rparr>)"
    by (simp add: normalize_dims_def ndim_def)
  from resample_isotropic_three [OF this] h
  show "resample_isotropic zoom a [sz, sy, sx] [tz, ty, tx] order
            = and_then (zoom (a\<lparr>shape := [d, h, w]\<rparr>) [sz / tz, sy / ty, sx / tx] order)
                (\<lambda>resampled. Inr (astype_float32 resampled))"
    by simp
qed

text \<open>
  A 1D and a 5D array are rejected, so are spacings of two and of four components; a
  \<open>(2, 2)\<close> and a \<open>(1, 1, 2, 2)\<close> array are both interpolated as \<open>(1, 2, 2)\<close>.
\<close>

theorem resampler_rank_and_spacing_checks_witness:
  "resample_isotropic (scipy_zoom blank_interp) \<lparr>shape = [4], data = [0, 1, 2, 3]\<rparr>
       [1, 1, 1] [1, 1, 1] 1
     = Inl (ValueError ''Unexpected volume shape'')
   \<and> resample_isotropic (scipy_zoom blank_interp) \<lparr>shape = [1, 1, 1, 2, 2], data = [0, 1, 2, 3]\<rparr>
       [1, 1, 1] [1, 1, 1] 1
     = Inl (ValueError ''Unexpected volume shape'')
   \<and> resample_isotropic (scipy_zoom blank_interp) small_volume [1, 1] [1, 1, 1] 1
     = Inl (ValueError ''not enough values to unpack'')
   \<and> resample_isotropic (scipy_zoom blank_interp) small_volume [1, 1, 1] [1, 1, 1, 1] 1
     = Inl (ValueError ''too many values to unpack'')
   \<and> resample_isotropic (scipy_zoom blank_interp) \<lparr>shape = [2, 2], data = [0, 1, 2, 3]\<rparr>
       [2, 1, 1] [1, 1, 1] 1
     = scipy_zoom blank_interp \<lparr>shape = [1, 2, 2], data = [0, 1, 2, 3]\<rparr> [2, 1, 1] 1
   \<and> resample_isotropic (scipy_zoom blank_interp) \<lparr>shape = [1, 1, 2, 2], data = [0, 1, 2, 3]\<rparr>
       [2, 1, 1] [1, 1, 1] 1
     = scipy_zoom blank_interp \<lparr>shape = [1, 2, 2], data = [0, 1, 2, 3]\<rparr> [2, 1, 1] 1"
proof -
  have a: "resample_isotropic (scipy_zoom blank_interp) \<lparr>shape = [4], data = [0, 1, 2, 3]\<rparr>
       [1, 1, 1] [1, 1, 1] 1 = Inl (ValueError ''Unexpected volume shape'')"
    using resampler_rank_and_spacing_checks
      [of "\<lparr>shape = [4], data = [0, 1, 2, 3]\<rparr>" "scipy_zoom blank_interp" "[1, 1, 1]" "[1, 1, 1]" 1]
    by (simp add: ndim_def)
  have b: "resample_isotropic (scipy_zoom blank_interp)
       \<lparr>shape = [1, 1, 1, 2, 2], data = [0, 1, 2, 3]\<rparr> [1, 1, 1] [1, 1, 1] 1
     = Inl (ValueError ''Unexpected volume shape'')"
    using resampler_rank_and_spacing_checks
      [of "\<lparr>shape = [1, 1, 1, 2, 2], data = [0, 1, 2, 3]\<rparr>" "scipy_zoom blank_interp"
          "[1, 1, 1]" "[1, 1, 1]" 1]
    by (simp add: ndim_def)
  have c: "resample_isotropic (scipy_zoom blank_interp) small_volume [1, 1] [1, 1, 1] 1
     = Inl (ValueError ''not enough values to unpack'')"
    using resampler_rank_and_spacing_checks
      [of small_volume "scipy_zoom blank_interp" "[1, 1]" "[1, 1, 1]" 1]
    by (simp add: ndim_def small_volume_def)
  have d: "resample_isotropic (scipy_zoom blank_interp) small_volume [1, 1, 1] [1, 1, 1, 1] 1
     = Inl (ValueError ''too many values to unpack'')"
    using resampler_rank_and_spacing_checks
      [of small_volume "scipy_zoom blank_interp" "[1, 1, 1]" "[1, 1, 1, 1]" 1]
    by (simp add: ndim_def small_volume_def)
  have e: "resample_isotropic (scipy_zoom blank_interp) \<lparr>shape = [2, 2], data = [0, 1, 2, 3]\<rparr>
       [2, 1, 1] [1, 1, 1] 1
     = scipy_zoom blank_interp \<lparr>shape = [1, 2, 2], data = [0, 1, 2, 3]\<rparr> [2, 1, 1] 1"
    using resampler_rank_and_spacing_checks
      [of "\<lparr>shape = [2, 2], data = [0, 1, 2, 3]\<rparr>" "scipy_zoom blank_interp" "[]" "[]" 1
          1 1 1 2 1 1]
    by (simp add: and_then_def astype_float32_def split: sum.splits)
  have f: "resample_isotropic (scipy_zoom blank_interp)
       \<lparr>shape = [1, 1, 2, 2], data = [0, 1, 2, 3]\<rparr> [2, 1, 1] [1, 1, 1] 1
     = scipy_zoom blank_interp \<lparr>shape = [1, 2, 2], data = [0, 1, 2, 3]\<rparr> [2, 1, 1] 1"
    using resampler_rank_and_spacing_checks
      [of "\<lparr>shape = [1, 1, 2, 2], data = [0, 1, 2, 3]\<rparr>" "scipy_zoom blank_interp" "[]" "[]" 1
          1 1 1 2 1 1]
    by (simp add: and_then_def astype_float32_def split: sum.splits)
  show ?thesis using a b c d e f by (intro conjI) assumption+
qed

subsection \<open>Extent of the resampled volume\<close>



subsection \<open>Non-positive spacing\<close>

text \<open>
  Claim C1 as stated (every spacing with a component \<open>\<le> 0\<close> is rejected) does not hold:
  the resampler has no check of the spacing. With original spacing \<open>(-2, 1, 1)\<close> and target
  spacing \<open>(-1, 1, 1)\<close> the zoom factors are \<open>(2, 1, 1)\<close> and a volume is returned.
\<close>

theorem resampler_accepts_negative_spacing:
  "map_sum id shape
     (resample_isotropic (scipy_zoom blank_interp) \<lparr>shape = [1, 2, 2], data = [0, 1, 2, 3]\<rparr>
        [- 2, 1, 1] [- 1, 1, 1] 1)
   = Inr [2, 2, 2]"
  using scipy_zoom_small
  by (simp add: resample_isotropic_def normalize_dims_def ndim_def unpack3_def float_div_def
        and_then_def astype_float32_def small_volume_def)

text \<open>
  Claim C1, amended. For a volume of accepted rank and spacings of three components: when a
  component of the target spacing is zero the resampler fails with \<^verbatim>\<open>ZeroDivisionError\<close>
  and returns no volume; otherwise it hands the quotients original/target to the interpolation
  as zoom factors, whatever their sign, and returns the interpolation's outcome.
\<close>

theorem resampler_spacing_handling:
  assumes "normalize_dims a = Inr a'"
  shows "((tz = 0 \<or> ty = 0 \<or> tx = 0)
           \<longrightarrow> resample_isotropic zoom a [sz, sy, sx] [tz, ty, tx] order
                 = Inl (ZeroDivisionError ''float division by zero''))
       \<and> (tz \<noteq> 0 \<and> ty \<noteq> 0 \<and> tx \<noteq> 0
           \<longrightarrow> resample_isotropic zoom a [sz, sy, sx] [tz, ty, tx] order
                 = and_then (zoom a' [sz / tz, sy / ty, sx / tx] order)
                     (\<lambda>resampled. Inr (astype_float32 resampled)))"
  by (simp add: resample_isotropic_three [OF assms])

text \<open>
  A zero in the target spacing raises; negative spacings on both sides go through.
\<close>

theorem resampler_spacing_handling_witness:
  "normalize_dims small_volume = Inr small_volume
   \<and> resample_isotropic (scipy_zoom blank_interp) small_volume [2, 1, 1] [1, 0, 1] 1
       = Inl (ZeroDivisionError ''float division by zero'')
   \<and> resample_isotropic (scipy_zoom blank_interp) small_volume [- 2, 1, 1] [- 1, 1, 1] 1
       = Inr \<lparr>shape = [2, 2, 2], data = [0, 0, 0, 0, 0, 0, 0, 0]\<rparr>"
proof -
  have a: "resample_isotropic (scipy_zoom blank_interp) small_volume [2, 1, 1] [1, 0, 1] 1
       = Inl (ZeroDivisionError ''float division by zero'')"
    using resampler_spacing_handling [OF small_volume_dims, of 1 0 1 "scipy_zoom blank_interp" 2 1 1 1]
    by simp
  have b: "resample_isotropic (scipy_zoom blank_interp) small_volume [- 2, 1, 1] [- 1, 1, 1] 1
       = Inr \<lparr>shape = [2, 2, 2], data = [0, 0, 0, 0, 0, 0, 0, 0]\<rparr>"
    using resampler_spacing_handling [OF small_volume_dims, of "- 1" 1 1 "scipy_zoom blank_interp" "- 2" 1 1 1]
    by (simp add: scipy_zoom_small and_then_def astype_float32_def)
  show ?thesis using small_volume_dims a b by (intro conjI) assumption+
qed

subsection \<open>Normalization before resampling\<close>

text \<open>
  Claim C8. In a run that does not take the cache branch and returns a result, the returned
  volume is the resampling of the normalized volume, and the normalized volume is the
  normalization of the raw volume the assembler returned, under the modality of its metadata;
  the resampler receives the spacing of that metadata. This holds for every interpolation.
\<close>

theorem pipeline_normalizes_before_resampling:
  assumes "\<not> (use_cache \<and> os_path_exists (ensure_dir fs cache_dir) (cache_path_of cache_dir series_dir))"
      and "preprocess_series zoom fs series_dir new_spacing cache_dir use_cache = (Inr res, fs')"
  shows "\<exists>raw meta modality normed slice_spacing row_spacing col_spacing resampled.
           load_dicom_series (ensure_dir fs cache_dir) series_dir = Inr (raw, meta)
         \<and> meta ''Modality'' = Some (MStr modality)
         \<and> normalize_volume raw modality = Inr normed
         \<and> meta ''SliceSpacing'' = Some (MFloat slice_spacing)
         \<and> meta ''PixelSpacing'' = Some (MFloatPair row_spacing col_spacing)
         \<and> resample_isotropic zoom normed [slice_spacing, row_spacing, col_spacing] new_spacing 1
             = Inr resampled
         \<and> volume res = astype_float32 resampled
         \<and> metadata res = meta"
proof -
  from assms obtain resampled meta where
    c: "preprocess_cold zoom (ensure_dir fs cache_dir) series_dir new_spacing = Inr (resampled, meta)"
    and r: "res = \<lparr>volume = astype_float32 resampled, metadata = meta\<rparr>"
    unfolding preprocess_series_def cache_path_of_def Let_def
    by (auto split: if_splits sum.splits prod.splits)
  from preprocess_cold_Inr [OF c] r show ?thesis by force
qed

text \<open>
  A cold run on the five-slice series: assembled, normalized as CT, resampled from spacing
  \<open>(2, 1, 1)\<close>, and written to the cache.
\<close>

theorem pipeline_normalizes_before_resampling_witness:
  "preprocess_series (scipy_zoom blank_interp) series_fs ''series/1.2.3'' [1, 1, 1] ''cache'' True
     = (Inr cold_result, cold_fs)
   \<and> (\<exists>normed resampled.
         load_dicom_series (ensure_dir series_fs ''cache'') ''series/1.2.3''
           = Inr (series_volume, series_meta)
       \<and> normalize_volume series_volume ''CT'' = Inr normed
       \<and> resample_isotropic (scipy_zoom blank_interp) normed [2, 1, 1] [1, 1, 1] 1 = Inr resampled
       \<and> volume cold_result = astype_float32 resampled)"
proof -
  from pipeline_normalizes_before_resampling [OF series_cold_miss series_preprocess]
  obtain raw meta modality normed slice_spacing row_spacing col_spacing resampled where
    l: "load_dicom_series (ensure_dir series_fs ''cache'') ''series/1.2.3'' = Inr (raw, meta)"
    and m: "meta ''Modality'' = Some (MStr modality)"
    and n: "normalize_volume raw modality = Inr normed"
    and s: "meta ''SliceSpacing'' = Some (MFloat slice_spacing)"
    and p: "meta ''PixelSpacing'' = Some (MFloatPair row_spacing col_spacing)"
    and r: "resample_isotropic (scipy_zoom blank_interp) normed
              [slice_spacing, row_spacing, col_spacing] [1, 1, 1] 1 = Inr resampled"
    and v: "volume cold_result = astype_float32 resampled"
    by blast
  have l': "load_dicom_series (ensure_dir series_fs ''cache'') ''series/1.2.3''
              = Inr (series_volume, series_meta)"
    by (rule series_load_any) (simp add: series_ensure_dir)
  from l l' have e: "raw = series_volume" "meta = series_meta" by simp_all
  from m s p have "modality = ''CT''" "slice_spacing = 2" "row_spacing = 1" "col_spacing = 1"
    unfolding e by (simp_all add: series_meta_def)
  with l' n r v e show ?thesis using series_preprocess by blast
qed

subsection \<open>The cache-hit path\<close>




end
